theory Spec2Isabelle
  imports Complex_Main
begin

section \<open>PyGW2.calendar: the Mauvelian calendar and its converter\<close>

text \<open>
  A shallow embedding of \<^verbatim>\<open>src/PyGW2/calendar.py\<close>. Python's unbounded integers are
  \<^typ>\<open>int\<close>; an exception is a value of \<open>error\<close> on the left of a sum; an object whose
  method assigns to \<^verbatim>\<open>self\<close> is passed in and returned updated.
\<close>

subsection \<open>Exceptions\<close>

datatype error =
    ValueError string
  | TypeError
  | NameError string
  | RuntimeError string
  | OverflowError
  | ZeroDivisionError
  | RecursionError

subsection \<open>MauvelianSeason\<close>

datatype MauvelianSeason = ZEPHYR | PHOENIX | SCION | COLOSSUS

text \<open>Python's \<^verbatim>\<open>range(start, stop)\<close>: the integers from \<open>start\<close> up to, not including, \<open>stop\<close>.\<close>

record py_range =
  start :: int
  stop :: int

definition range_len :: "py_range \<Rightarrow> int" where
  "range_len r = max 0 (stop r - start r)"

definition in_range :: "int \<Rightarrow> py_range \<Rightarrow> bool" where
  "in_range x r = (start r \<le> x \<and> x < stop r)"

fun daysRange :: "MauvelianSeason \<Rightarrow> py_range" where
  "daysRange ZEPHYR = \<lparr>start = 1, stop = 91\<rparr>"
| "daysRange PHOENIX = \<lparr>start = 91, stop = 181\<rparr>"
| "daysRange SCION = \<lparr>start = 181, stop = 271\<rparr>"
| "daysRange COLOSSUS = \<lparr>start = 271, stop = 366\<rparr>"

definition seasonOf :: "int \<Rightarrow> error + MauvelianSeason" where
  "seasonOf day_of_year =
     (if \<not> (1 \<le> day_of_year \<and> day_of_year \<le> 365)
      then Inl (ValueError ''day not in [1; 365] range'')
      else if day_of_year \<le> 180
        then (if day_of_year \<le> 90 then Inr ZEPHYR else Inr PHOENIX)
        else (if day_of_year \<le> 270 then Inr SCION else Inr COLOSSUS))"

text \<open>
  The season table as the specification words it: the inclusive upper bounds 90, 180, 270
  tried in this order, Colossus otherwise.
\<close>

definition season_by_bounds :: "int \<Rightarrow> MauvelianSeason" where
  "season_by_bounds day_of_year =
     (if day_of_year \<le> 90 then ZEPHYR
      else if day_of_year \<le> 180 then PHOENIX
      else if day_of_year \<le> 270 then SCION
      else COLOSSUS)"

subsection \<open>Division of integers\<close>

text \<open>
  Python's \<^verbatim>\<open>a / b\<close> on integers is the true division: its value is the double nearest to
  the exact quotient, a tie going to the double whose last bit is even, and it raises
  \<^verbatim>\<open>OverflowError\<close> when that is beyond the largest double. A double is an integer
  multiple of \<open>2 ^ (e - 52)\<close>, where \<open>2 ^ e\<close> is the power of two at or just below its
  magnitude (and \<open>e\<close> is at least \<open>-1022\<close>); its magnitude is below \<open>2 ^ 1024\<close>.
\<close>

text \<open>The integer nearest to \<open>m\<close>, the even one of the two when \<open>m\<close> lies halfway.\<close>

definition rne :: "real \<Rightarrow> int" where
  "rne m =
     (let f = \<lfloor>m\<rfloor>; r = m - of_int f
      in if r < 1 / 2 then f
         else if 1 / 2 < r then f + 1
         else if even f then f else f + 1)"

text \<open>The exponent \<open>e\<close> with \<open>2 ^ e \<le> \<bar>x\<bar> < 2 ^ (e + 1)\<close>, for \<open>x\<close> other than 0.\<close>

definition binade :: "real \<Rightarrow> int" where
  "binade x = \<lfloor>log 2 \<bar>x\<bar>\<rfloor>"

definition double_round :: "real \<Rightarrow> error + real" where
  "double_round x =
     (if x = 0 then Inr 0
      else
        (let u = 2 powi (max (binade x) (- 1022) - 52);
             y = of_int (rne (x / u)) * u
         in if 2 ^ 1024 \<le> \<bar>y\<bar> then Inl OverflowError else Inr y))"

definition truediv :: "int \<Rightarrow> int \<Rightarrow> error + real" where
  "truediv a b =
     (if b = 0 then Inl ZeroDivisionError else double_round (of_int a / of_int b))"

subsection \<open>MauvelianDate\<close>

text \<open>The one attribute of the class, \<^verbatim>\<open>_day\<close>: the signed day offset.\<close>

record MauvelianDate =
  priv_day :: int

text \<open>\<^verbatim>\<open>MauvelianDate.__init__(year, day, season=None)\<close>.\<close>

definition init :: "int \<Rightarrow> int \<Rightarrow> MauvelianSeason option \<Rightarrow> error + MauvelianDate" where
  "init year day season =
     (if year = 0 then Inl (ValueError ''year cannot be 0'')
      else
        (case
           (case season of
              None \<Rightarrow> Inr day
            | Some s \<Rightarrow>
                if \<not> (1 \<le> day \<and> day \<le> range_len (daysRange s))
                then Inl (ValueError ''Day is not valid for this season'')
                else Inr (day + (start (daysRange s) - 1)))
         of
           Inl e \<Rightarrow> Inl e
         | Inr day' \<Rightarrow>
             if \<not> (1 \<le> day' \<and> day' \<le> 365)
             then Inl (ValueError ''day not in [1; 365] range'')
             else if year > 0
               then Inr \<lparr>priv_day = day' + 365 * (year - 1)\<rparr>
               else Inr \<lparr>priv_day = - day' - 365 * (year + 1)\<rparr>))"

text \<open>
  \<^verbatim>\<open>year\<close>: \<^verbatim>\<open>math.ceil(self._day / 365)\<close> or \<^verbatim>\<open>math.floor(self._day / 365)\<close>. The
  quotient is a float; \<^verbatim>\<open>math.ceil\<close> and \<^verbatim>\<open>math.floor\<close> of a float are exact integers.
\<close>

definition year :: "MauvelianDate \<Rightarrow> error + int" where
  "year self =
     (if priv_day self > 0
      then (case truediv (priv_day self) 365 of Inl e \<Rightarrow> Inl e | Inr q \<Rightarrow> Inr \<lceil>q\<rceil>)
      else (case truediv (priv_day self) 365 of Inl e \<Rightarrow> Inl e | Inr q \<Rightarrow> Inr \<lfloor>q\<rfloor>))"

text \<open>
  \<^verbatim>\<open>dayOfYear\<close>. Python's \<^verbatim>\<open>%\<close> with a positive divisor is the floored remainder,
  which is \<open>mod\<close> on \<^typ>\<open>int\<close>.
\<close>

definition dayOfYear :: "MauvelianDate \<Rightarrow> int" where
  "dayOfYear self =
     (let d = \<bar>priv_day self mod 365\<bar> in if d = 0 then 365 else d)"

definition dayOfSeason :: "MauvelianDate \<Rightarrow> error + int" where
  "dayOfSeason self =
     (case seasonOf (dayOfYear self) of
        Inl e \<Rightarrow> Inl e
      | Inr s \<Rightarrow> Inr (dayOfYear self - start (daysRange s) + 1))"

definition season :: "MauvelianDate \<Rightarrow> error + MauvelianSeason" where
  "season self = seasonOf (dayOfYear self)"

definition lt :: "MauvelianDate \<Rightarrow> MauvelianDate \<Rightarrow> bool" where
  "lt self other = (priv_day self < priv_day other)"

definition gt :: "MauvelianDate \<Rightarrow> MauvelianDate \<Rightarrow> bool" where
  "gt self other = (priv_day self > priv_day other)"

definition eq :: "MauvelianDate \<Rightarrow> MauvelianDate \<Rightarrow> bool" where
  "eq self other = (priv_day self = priv_day other)"

text \<open>\<^verbatim>\<open>addDays\<close> assigns to \<^verbatim>\<open>self._day\<close> and returns \<^verbatim>\<open>self\<close>: the result is the updated object.\<close>

definition addDays :: "MauvelianDate \<Rightarrow> int \<Rightarrow> MauvelianDate" where
  "addDays self days =
     (let self1 = self\<lparr>priv_day := priv_day self + days\<rparr>
      in if priv_day self1 = 0
         then (if days > 0 then self1\<lparr>priv_day := 1\<rparr> else self1\<lparr>priv_day := 1\<rparr>)
         else self1)"

definition daysBetween :: "MauvelianDate \<Rightarrow> MauvelianDate \<Rightarrow> int" where
  "daysBetween self other = \<bar>priv_day self - priv_day other\<bar>"

text \<open>\<^verbatim>\<open>__add__\<close>: a new object built from the accessors, then \<^verbatim>\<open>addDays\<close> on it.\<close>

definition add :: "MauvelianDate \<Rightarrow> int \<Rightarrow> error + MauvelianDate" where
  "add self days =
     (case year self of
        Inl e \<Rightarrow> Inl e
      | Inr y \<Rightarrow>
          (case init y (dayOfYear self) None of
             Inl e \<Rightarrow> Inl e
           | Inr fresh \<Rightarrow> Inr (addDays fresh days)))"

text \<open>
  \<^verbatim>\<open>__sub__(self, other)\<close> takes a date or an integer and would return an integer or a
  date. With an integer it evaluates \<^verbatim>\<open>self - other\<close>, which is \<^verbatim>\<open>__sub__\<close> on the same
  arguments again; the interpreter ends the nesting with \<^verbatim>\<open>RecursionError\<close>. \<open>depth\<close> is
  the number of further nested calls the interpreter still allows.
\<close>

datatype operand = DateOperand MauvelianDate | IntOperand int

datatype sub_value = DayCount int | DateValue MauvelianDate

fun sub :: "nat \<Rightarrow> MauvelianDate \<Rightarrow> operand \<Rightarrow> error + sub_value" where
  "sub depth self (DateOperand other) = Inr (DayCount (daysBetween self other))"
| "sub 0 self (IntOperand n) = Inl RecursionError"
| "sub (Suc depth) self (IntOperand n) = sub depth self (IntOperand n)"

text \<open>The interpreter's default limit on nested calls.\<close>

definition recursion_limit :: nat where
  "recursion_limit = 1000"

subsection \<open>datetime.date\<close>

text \<open>
  The standard library's date, which the module imports: a day of the proleptic Gregorian
  calendar. Dates correspond one to one to their ordinals, from 1 (0001-01-01) to
  \<open>MAXORDINAL\<close> (9999-12-31), so a date is represented by its ordinal. The difference of
  two dates is a number of days; \<^verbatim>\<open>timedelta(days=n)\<close> and the sum of a date and a
  \<^verbatim>\<open>timedelta\<close> raise \<^verbatim>\<open>OverflowError\<close> outside their ranges.
\<close>

datatype date = fromordinal (toordinal: int)

definition MAXORDINAL :: int where
  "MAXORDINAL = 3652059"

definition date_ok :: "date \<Rightarrow> bool" where
  "date_ok d = (1 \<le> toordinal d \<and> toordinal d \<le> MAXORDINAL)"

definition is_leap :: "int \<Rightarrow> bool" where
  "is_leap y = (y mod 4 = 0 \<and> (y mod 100 \<noteq> 0 \<or> y mod 400 = 0))"

definition days_before_year :: "int \<Rightarrow> int" where
  "days_before_year y = (y - 1) * 365 + (y - 1) div 4 - (y - 1) div 100 + (y - 1) div 400"

definition days_before_month :: "int \<Rightarrow> int \<Rightarrow> int" where
  "days_before_month y m =
     [0, 31, 59, 90, 120, 151, 181, 212, 243, 273, 304, 334] ! nat (m - 1)
       + (if m > 2 \<and> is_leap y then 1 else 0)"

text \<open>The ordinal of year \<open>y\<close>, month \<open>m\<close> (1 to 12), day \<open>d\<close>; it names the dates of the examples.\<close>

definition ymd2ord :: "int \<Rightarrow> int \<Rightarrow> int \<Rightarrow> int" where
  "ymd2ord y m d = days_before_year y + days_before_month y m + d"

text \<open>\<^verbatim>\<open>(a - b).days\<close>.\<close>

definition days_since :: "date \<Rightarrow> date \<Rightarrow> int" where
  "days_since a b = toordinal a - toordinal b"

text \<open>\<^verbatim>\<open>datetime.timedelta(days=n)\<close>, kept as its number of days.\<close>

definition timedelta :: "int \<Rightarrow> error + int" where
  "timedelta n = (if \<bar>n\<bar> > 999999999 then Inl OverflowError else Inr n)"

text \<open>\<^verbatim>\<open>a + datetime.timedelta(days=n)\<close>.\<close>

definition date_plus :: "date \<Rightarrow> int \<Rightarrow> error + date" where
  "date_plus a n =
     (let ord = toordinal a + n
      in if 0 < ord \<and> ord \<le> MAXORDINAL then Inr (fromordinal ord) else Inl OverflowError)"

subsection \<open>DateConverter\<close>

text \<open>
  The attribute \<^verbatim>\<open>_reference\<close>, a pair whose components are \<^verbatim>\<open>None\<close> or a date. A
  method returns its outcome together with the converter as the call leaves it.
\<close>

record DateConverter =
  priv_reference :: "date option \<times> MauvelianDate option"

text \<open>The class attribute \<^verbatim>\<open>_reference = (None, None)\<close>: a converter as created.\<close>

definition new_converter :: DateConverter where
  "new_converter = \<lparr>priv_reference = (None, None)\<rparr>"

text \<open>
  The module refers to the name \<^verbatim>\<open>NoneType\<close>, which it neither defines nor imports and
  which is no builtin: evaluating it raises \<^verbatim>\<open>NameError\<close>.
\<close>

definition NoneType :: "error + unit" where
  "NoneType = Inl (NameError ''NoneType'')"

text \<open>
  \<^verbatim>\<open>setReferencePoint(real_date, mauvelian_date)\<close>. An argument is \<^verbatim>\<open>None\<close> or an object
  of the documented class, so \<^verbatim>\<open>isinstance(real_date, datetime.date)\<close> is
  \<open>real_date \<noteq> None\<close>. The condition is an \<^verbatim>\<open>and\<close>: its right operand, which mentions
  \<^verbatim>\<open>NoneType\<close>, is evaluated only when the left one holds.
\<close>

definition setReferencePoint ::
    "DateConverter \<Rightarrow> date option \<Rightarrow> MauvelianDate option \<Rightarrow> (error + unit) \<times> DateConverter" where
  "setReferencePoint self real_date mauvelian_date =
     (if real_date = None \<or> mauvelian_date = None
      then
        (case NoneType of
           Inl e \<Rightarrow> (Inl e, self)
         | Inr _ \<Rightarrow>
             if \<not> (real_date = None \<and> mauvelian_date = None)
             then (Inl TypeError, self)
             else (Inr (), self\<lparr>priv_reference := (real_date, mauvelian_date)\<rparr>))
      else (Inr (), self\<lparr>priv_reference := (real_date, mauvelian_date)\<rparr>))"

definition realToMauvelian ::
    "DateConverter \<Rightarrow> date \<Rightarrow> (error + MauvelianDate) \<times> DateConverter" where
  "realToMauvelian self real_date =
     (case priv_reference self of
        (None, _) \<Rightarrow> (Inl (RuntimeError ''Reference point not set''), self)
      | (Some _, None) \<Rightarrow> (Inl (RuntimeError ''Reference point not set''), self)
      | (Some ref_real, Some ref_mauvelian) \<Rightarrow>
          (let delta_days = days_since real_date ref_real
           in (add ref_mauvelian delta_days, self)))"

text \<open>
  \<^verbatim>\<open>mauvelianToReal\<close>. The difference \<^verbatim>\<open>mauvelian_date - self._reference[1]\<close> is
  \<^verbatim>\<open>__sub__\<close> with a date, computed twice by the source (the second result, \<^verbatim>\<open>dd\<close>, is
  never read).
\<close>

definition mauvelianToReal ::
    "DateConverter \<Rightarrow> MauvelianDate \<Rightarrow> (error + date) \<times> DateConverter" where
  "mauvelianToReal self mauvelian_date =
     (case priv_reference self of
        (None, _) \<Rightarrow> (Inl (RuntimeError ''Reference point not set''), self)
      | (Some _, None) \<Rightarrow> (Inl (RuntimeError ''Reference point not set''), self)
      | (Some ref_real, Some ref_mauvelian) \<Rightarrow>
          (case sub recursion_limit mauvelian_date (DateOperand ref_mauvelian) of
             Inl e \<Rightarrow> (Inl e, self)
           | Inr (DateValue _) \<Rightarrow> (Inl TypeError, self)
           | Inr (DayCount delta_days) \<Rightarrow>
               (case timedelta delta_days of
                  Inl e \<Rightarrow> (Inl e, self)
                | Inr delta \<Rightarrow> (date_plus ref_real delta, self))))"

subsection \<open>The module's own test data\<close>

text \<open>The reference point of the module's self-test: 2016-11-05 and day 35 of Colossus, 1328 AE.\<close>

definition test_real :: date where
  "test_real = fromordinal (ymd2ord 2016 11 5)"

definition test_mauvelian :: MauvelianDate where
  "test_mauvelian = \<lparr>priv_day = 305 + 365 * 1327\<rparr>"

definition test_converter :: DateConverter where
  "test_converter = \<lparr>priv_reference = (Some test_real, Some test_mauvelian)\<rparr>"

section \<open>Facts about the division\<close>

lemma rne_error: "\<bar>of_int (rne m) - m\<bar> \<le> 1 / 2"
  unfolding rne_def Let_def by (auto; linarith)

lemma rne_of_int: "rne (of_int k) = k"
  by (simp add: rne_def)

lemma binade_eq:
  assumes "2 powi k \<le> \<bar>x\<bar>" and "\<bar>x\<bar> < 2 powi (k + 1)"
  shows "binade x = k"
proof -
  have pos: "0 < \<bar>x\<bar>" using assms(1) by (smt (verit) zero_less_power_int)
  have "(2::real) powr (of_int k) = 2 powi k"
    using powr_real_of_int' [of "2::real" k] by simp
  moreover have "(2::real) powr (of_int k + 1) = 2 powi (k + 1)"
    using powr_real_of_int' [of "2::real" "k + 1"] by simp
  ultimately have "\<lfloor>log 2 \<bar>x\<bar>\<rfloor> = k"
    using assms pos floor_log_eq_powr_iff [of "\<bar>x\<bar>" 2 k] by simp
  then show ?thesis
    by (simp add: binade_def)
qed

lemma binade_less:
  assumes "x \<noteq> 0" and "\<bar>x\<bar> < 2 ^ n"
  shows "binade x < int n"
proof -
  have "log 2 \<bar>x\<bar> < log 2 (2 ^ n)"
    using assms by (simp del: log_pow_cancel)
  then have "log 2 \<bar>x\<bar> < of_int (int n)" by simp
  then show ?thesis unfolding binade_def by (simp only: floor_less_iff)
qed


text \<open>Below \<open>2 ^ 45\<close> the double lies within \<open>1 / 512\<close> of the exact value.\<close>

lemma double_round_near:
  assumes nz: "x \<noteq> 0" and small: "\<bar>x\<bar> < 2 ^ 45"
  shows "\<exists>y. double_round x = Inr y \<and> \<bar>y - x\<bar> \<le> 1 / 512"
proof -
  define p where "p = max (binade x) (- 1022) - 52"
  define u :: real where "u = 2 powi p"
  define y where "y = of_int (rne (x / u)) * u"
  have "binade x < 45" using binade_less [OF nz small] by simp
  then have p: "p \<le> - 8" by (simp add: p_def)
  have upos: "0 < u" by (simp add: u_def)
  have "u \<le> 2 powi (- 8)"
    unfolding u_def using p by (intro power_int_increasing) simp_all
  then have usmall: "u \<le> 1 / 256" by (simp add: power_int_minus)
  have "y - x = (of_int (rne (x / u)) - x / u) * u"
    using upos by (simp add: y_def field_simps)
  then have "\<bar>y - x\<bar> = \<bar>of_int (rne (x / u)) - x / u\<bar> * u"
    using upos by (simp add: abs_mult)
  also have "\<dots> \<le> (1 / 2) * u"
    using rne_error [of "x / u"] upos by (intro mult_right_mono) simp_all
  also have "\<dots> \<le> 1 / 512" using usmall by simp
  finally have near: "\<bar>y - x\<bar> \<le> 1 / 512" .
  have "\<bar>y\<bar> < 2 ^ 46" using near small by (simp; linarith)
  also have "(2::real) ^ 46 \<le> 2 ^ 1024" by (intro power_increasing) simp_all
  finally have "\<not> 2 ^ 1024 \<le> \<bar>y\<bar>" by simp
  then have "double_round x = Inr y"
    using nz by (simp add: double_round_def Let_def y_def u_def p_def)
  with near show ?thesis by blast
qed

text \<open>An integer below \<open>2 ^ 45\<close> in magnitude is a double.\<close>

lemma double_round_of_int:
  assumes small: "\<bar>k\<bar> < 2 ^ 45"
  shows "double_round (of_int k) = Inr (of_int k)"
proof (cases "k = 0")
  case True
  then show ?thesis by (simp add: double_round_def)
next
  case False
  define x :: real where "x = of_int k"
  define p where "p = max (binade x) (- 1022) - 52"
  define u :: real where "u = 2 powi p"
  have nz: "x \<noteq> 0" using False by (simp add: x_def)
  have xs: "\<bar>x\<bar> < 2 ^ 45"
  proof -
    have "real_of_int \<bar>k\<bar> < real_of_int (2 ^ 45)" using small by (simp only: of_int_less_iff)
    then show ?thesis by (simp add: x_def)
  qed
  have "binade x < 45" using binade_less [OF nz xs] by simp
  then have p: "p \<le> 0" by (simp add: p_def)
  define n where "n = nat (- p)"
  have pn: "p = - int n" using p by (simp add: n_def)
  have u: "u = inverse (2 ^ n)"
    by (simp add: u_def pn power_int_minus)
  have "x / u = of_int (k * 2 ^ n)"
    by (simp add: u x_def divide_inverse)
  then have "rne (x / u) = k * 2 ^ n" by (simp only: rne_of_int)
  then have y: "of_int (rne (x / u)) * u = x"
    by (simp add: u x_def)
  have "\<bar>x\<bar> < 2 ^ 1024"
  proof -
    have "(2::real) ^ 45 \<le> 2 ^ 1024" by (intro power_increasing) simp_all
    with xs show ?thesis by linarith
  qed
  then have "\<not> 2 ^ 1024 \<le> \<bar>x\<bar>" by simp
  then have "double_round x = Inr x"
    using nz y by (simp add: double_round_def Let_def u_def p_def)
  then show ?thesis by (simp add: x_def)
qed

text \<open>
  For \<open>a\<close> below \<open>365 * 2 ^ 45\<close> in magnitude the float \<open>a / 365\<close> is the integer \<open>a div 365\<close>
  when \<open>365\<close> divides \<open>a\<close>, and lies strictly between \<open>a div 365\<close> and the next integer
  otherwise: a quotient that is no integer is at least \<open>1 / 365\<close> away from one.
\<close>

lemma truediv_365:
  assumes small: "\<bar>a\<bar> < 365 * 2 ^ 45"
  shows "\<exists>y. truediv a 365 = Inr y
           \<and> (if a mod 365 = 0 then y = of_int (a div 365)
              else of_int (a div 365) < y \<and> y < of_int (a div 365) + 1)"
proof -
  define q r where "q = a div 365" and "r = a mod 365"
  have split: "a = 365 * q + r" and lo: "0 \<le> r" and hi: "r < 365"
    by (simp_all add: q_def r_def)
  define x :: real where "x = of_int a / 365"
  have x: "x = of_int q + of_int r / 365"
    by (simp add: x_def split)
  show ?thesis
  proof (cases "r = 0")
    case True
    have "\<bar>q\<bar> < 2 ^ 45" using small split True by simp
    then have "double_round (of_int q) = Inr (of_int q)"
      by (rule double_round_of_int)
    then show ?thesis
      using True x by (simp add: truediv_def x_def [symmetric] q_def r_def)
  next
    case False
    then have r1: "1 \<le> real_of_int r" and r364: "real_of_int r \<le> 364"
      using lo hi by simp_all
    have "real_of_int \<bar>a\<bar> < real_of_int (365 * 2 ^ 45)"
      using small by (simp only: of_int_less_iff)
    then have xs: "\<bar>x\<bar> < 2 ^ 45" by (simp add: x_def)
    have "a \<noteq> 0" using False by (auto simp: r_def)
    then have nz: "x \<noteq> 0" by (simp add: x_def)
    from double_round_near [OF nz xs]
    obtain y where y: "double_round x = Inr y" and near: "\<bar>y - x\<bar> \<le> 1 / 512"
      by blast
    have "of_int q < y" "y < of_int q + 1"
      using near x r1 r364 by linarith+
    then show ?thesis
      using False y by (simp add: truediv_def x_def [symmetric] q_def r_def)
  qed
qed

section \<open>Facts about MauvelianDate\<close>

text \<open>
  Below \<open>365 * 2 ^ 45\<close> in magnitude of the offset, \<open>year\<close> is the exact ceiling or floor.
\<close>

lemma year_exact:
  assumes small: "\<bar>priv_day self\<bar> < 365 * 2 ^ 45"
  shows "year self =
           Inr (if priv_day self > 0 \<and> priv_day self mod 365 \<noteq> 0
                then priv_day self div 365 + 1
                else priv_day self div 365)"
proof -
  from truediv_365 [OF small]
  obtain y where y: "truediv (priv_day self) 365 = Inr y"
    and cases: "if priv_day self mod 365 = 0 then y = of_int (priv_day self div 365)
                else of_int (priv_day self div 365) < y \<and> y < of_int (priv_day self div 365) + 1"
    by blast
  show ?thesis
  proof (cases "priv_day self mod 365 = 0")
    case True
    with cases have "y = of_int (priv_day self div 365)" by simp
    then show ?thesis using True y by (simp add: year_def)
  next
    case False
    with cases have lo: "of_int (priv_day self div 365) < y"
      and hi: "y < of_int (priv_day self div 365) + 1" by simp_all
    have "\<lceil>y\<rceil> = priv_day self div 365 + 1"
      using lo hi by (intro ceiling_unique) simp_all
    moreover have "\<lfloor>y\<rfloor> = priv_day self div 365"
      using lo hi by (intro floor_unique) simp_all
    ultimately show ?thesis using False y by (simp add: year_def)
  qed
qed

text \<open>
  Beyond that the float is too coarse: the quotient of \<open>365 * 2 ^ 45 + 1\<close> and \<open>365\<close> is
  \<open>2 ^ 45 + 1 / 365\<close>, doubles there are \<open>1 / 128\<close> apart, and the nearest one is \<open>2 ^ 45\<close>.
\<close>

lemma year_far: "year \<lparr>priv_day = 12842295812423681\<rparr> = Inr 35184372088832"
proof -
  let ?x = "12842295812423681 / 365 :: real"
  have b: "binade ?x = 45"
    by (rule binade_eq) simp_all
  have r: "rne (1643813863990231168 / 365) = 4503599627370496"
    by (simp add: rne_def Let_def)
  have "double_round ?x = Inr 35184372088832"
    by (simp add: double_round_def Let_def b power_int_minus r)
  then show ?thesis
    by (simp add: year_def truediv_def)
qed

lemma dayOfYear_mod:
  "dayOfYear self = (if priv_day self mod 365 = 0 then 365 else priv_day self mod 365)"
  by (simp add: dayOfYear_def Let_def)

lemma dayOfYear_bounds: "1 \<le> dayOfYear self \<and> dayOfYear self \<le> 365"
proof -
  have "0 \<le> priv_day self mod 365" and "priv_day self mod 365 < 365"
    by simp_all
  then show ?thesis
    unfolding dayOfYear_mod by auto
qed

lemma year_nonzero:
  assumes "\<bar>priv_day self\<bar> < 365 * 2 ^ 45" and nz: "priv_day self \<noteq> 0"
  shows "year self \<noteq> Inr 0"
proof -
  have split: "priv_day self = 365 * (priv_day self div 365) + priv_day self mod 365" by simp
  have lo: "0 \<le> priv_day self mod 365" and hi: "priv_day self mod 365 < 365" by simp_all
  show ?thesis
    unfolding year_exact [OF assms(1)] using nz split lo hi by (auto; linarith)
qed

lemma reconstruct_AE:
  assumes pos: "0 < priv_day self" and small: "priv_day self < 365 * 2 ^ 45"
  shows "\<exists>y. year self = Inr y \<and> init y (dayOfYear self) None = Inr self"
proof -
  define y where "y = (if priv_day self mod 365 \<noteq> 0
                       then priv_day self div 365 + 1 else priv_day self div 365)"
  have "\<bar>priv_day self\<bar> < 365 * 2 ^ 45" using pos small by simp
  from year_exact [OF this] have y: "year self = Inr y"
    using pos by (simp add: y_def)
  have split: "priv_day self = 365 * (priv_day self div 365) + priv_day self mod 365" by simp
  have lo: "0 \<le> priv_day self mod 365" and hi: "priv_day self mod 365 < 365" by simp_all
  have ypos: "0 < y"
    unfolding y_def using pos split lo hi by (auto; linarith)
  have eq: "dayOfYear self + 365 * (y - 1) = priv_day self"
    unfolding y_def dayOfYear_mod using pos split by (auto; linarith)
  have "init y (dayOfYear self) None = Inr self"
    using ypos eq dayOfYear_bounds [of self] by (simp add: init_def)
  with y show ?thesis by blast
qed

lemma init_AE:
  "0 < y \<Longrightarrow> 1 \<le> d \<Longrightarrow> d \<le> 365 \<Longrightarrow>
     init y d None = Inr \<lparr>priv_day = d + 365 * (y - 1)\<rparr>"
  by (simp add: init_def)

text \<open>
  For an AE year below \<open>2 ^ 45\<close> the accessors give back what the constructor was given.
\<close>

lemma accessors_AE:
  fixes y d :: int
  assumes "0 < y" "y < 2 ^ 45" "1 \<le> d" "d \<le> 365"
  shows "year \<lparr>priv_day = d + 365 * (y - 1)\<rparr> = Inr y
       \<and> dayOfYear \<lparr>priv_day = d + 365 * (y - 1)\<rparr> = d"
proof -
  let ?o = "d + 365 * (y - 1)"
  let ?m = "\<lparr>priv_day = ?o\<rparr>"
  have pos: "0 < ?o" using assms by simp
  have "\<bar>priv_day ?m\<bar> < 365 * 2 ^ 45"
    using assms by simp
  from year_exact [OF this]
  have yr: "year ?m = Inr (if ?o mod 365 \<noteq> 0 then ?o div 365 + 1 else ?o div 365)"
    using pos by simp
  have dy: "dayOfYear ?m = (if ?o mod 365 = 0 then 365 else ?o mod 365)"
    by (simp add: dayOfYear_mod)
  show ?thesis
  proof (cases "d = 365")
    case True
    have "?o = 365 * y + 0" using True by simp
    then have dv: "?o div 365 = y" "?o mod 365 = 0"
      by simp_all
    show ?thesis unfolding yr dy dv using True by simp
  next
    case False
    have "?o = 365 * (y - 1) + d" by simp
    moreover have "0 \<le> d" "d < 365" using assms False by simp_all
    ultimately have dv: "?o div 365 = y - 1" "?o mod 365 = d"
      by (rule int_div_pos_eq, rule int_mod_pos_eq)
    show ?thesis unfolding yr dy dv using assms by simp
  qed
qed

lemma addDays_priv_day:
  "priv_day (addDays self n) = (if priv_day self + n = 0 then 1 else priv_day self + n)"
  by (simp add: addDays_def Let_def)

lemma addDays_nonzero: "priv_day (addDays self n) \<noteq> 0"
  by (simp add: addDays_priv_day)

lemma addDays_forward:
  assumes "0 < priv_day self" and "0 \<le> n"
  shows "addDays self n = \<lparr>priv_day = priv_day self + n\<rparr>"
  using assms by (cases self) (simp add: addDays_def Let_def)

lemma add_AE:
  assumes "0 < priv_day self" and "priv_day self < 365 * 2 ^ 45"
  shows "add self n = Inr (addDays self n)"
  using reconstruct_AE [OF assms] by (auto simp: add_def)

section \<open>Facts about DateConverter\<close>

lemmas date_simps = ymd2ord_def days_before_year_def days_before_month_def is_leap_def

lemma test_real_ordinal: "test_real = fromordinal 736273"
  by (simp add: test_real_def date_simps)

lemma test_mauvelian_init: "init 1328 35 (Some COLOSSUS) = Inr test_mauvelian"
  by (simp add: init_def test_mauvelian_def range_len_def)

lemma test_converter_set:
  "setReferencePoint new_converter (Some test_real) (Some test_mauvelian) = (Inr (), test_converter)"
  by (simp add: setReferencePoint_def new_converter_def test_converter_def)

lemma realToMauvelian_set:
  assumes "priv_reference c = (Some r0, Some m0)"
  shows "realToMauvelian c r = (add m0 (days_since r r0), c)"
  using assms by (simp add: realToMauvelian_def)

text \<open>With a reference point stored, the delta of \<open>mauvelianToReal\<close> is \<open>daysBetween\<close> as it is.\<close>

lemma mauvelianToReal_set:
  assumes "priv_reference c = (Some r0, Some m0)"
  shows "mauvelianToReal c m =
           (case timedelta (daysBetween m m0) of
              Inl e \<Rightarrow> (Inl e, c)
            | Inr n \<Rightarrow> (date_plus r0 n, c))"
  using assms by (simp add: mauvelianToReal_def)

lemma mauvelianToReal_forward:
  assumes ref: "priv_reference c = (Some r0, Some m0)"
    and ok: "date_ok r0"
    and later: "priv_day m0 \<le> priv_day m"
    and fits: "toordinal r0 + (priv_day m - priv_day m0) \<le> MAXORDINAL"
  shows "mauvelianToReal c m = (Inr (fromordinal (toordinal r0 + (priv_day m - priv_day m0))), c)"
proof -
  let ?n = "priv_day m - priv_day m0"
  have between: "daysBetween m m0 = ?n"
    using later by (simp add: daysBetween_def)
  have "?n \<le> 3652058"
    using fits ok by (simp add: date_ok_def MAXORDINAL_def)
  then have delta: "timedelta ?n = Inr ?n"
    using later by (simp add: timedelta_def)
  have plus: "date_plus r0 ?n = Inr (fromordinal (toordinal r0 + ?n))"
    using fits ok later by (simp add: date_plus_def date_ok_def Let_def)
  show ?thesis
    by (simp add: mauvelianToReal_set [OF ref] between delta plus)
qed

section \<open>The claims\<close>

text \<open>
  Claim C1: for every nonzero year and every day of year from 1 to 365, the date constructed
  from them has that year and that day of year. The constructor and the accessors agree for
  AE years below \<open>2 ^ 45\<close> (\<open>accessors_AE\<close>) and disagree for BE years: built from year \<open>-2\<close> and day 1 the
  date has the positive offset 364, so its year is 1 and its day of year 364; built from year
  \<open>-1\<close> and day 1 it has offset \<open>-1\<close>, the right year and the day of year 364.
\<close>

theorem init_accessors_BE:
  "init (- 2) 1 None = Inr \<lparr>priv_day = 364\<rparr>
   \<and> year \<lparr>priv_day = 364\<rparr> = Inr 1
   \<and> dayOfYear \<lparr>priv_day = 364\<rparr> = 364
   \<and> init (- 1) 1 None = Inr \<lparr>priv_day = - 1\<rparr>
   \<and> year \<lparr>priv_day = - 1\<rparr> = Inr (- 1)
   \<and> dayOfYear \<lparr>priv_day = - 1\<rparr> = 364"
  by (simp add: init_def year_exact dayOfYear_mod)

text \<open>
  Claim C2: no date that a constructor or a sequence of \<open>addDays\<close> calls produces has offset 0,
  and \<open>year\<close> never returns 0. \<open>addDays\<close> never leaves offset 0 (\<open>addDays_nonzero\<close>) and a
  nonzero offset below \<open>365 * 2 ^ 45\<close> in magnitude has a nonzero year (\<open>year_nonzero\<close>), but
  the constructor, given year \<open>-2\<close> and day 365, returns the date of offset 0, whose year is 0.
\<close>

theorem init_offset_zero:
  "init (- 2) 365 None = Inr \<lparr>priv_day = 0\<rparr> \<and> year \<lparr>priv_day = 0\<rparr> = Inr 0"
  by (simp add: init_def year_exact)

text \<open>
  Claim C3: \<open>mauvelianToReal\<close> returns the reference real date moved by \<open>daysBetween\<close> days,
  forward for a date after the reference and backward for a date before it. The code adds
  the unsigned \<open>daysBetween\<close> in both cases (\<open>mauvelianToReal_set\<close>): with the reference
  2016-11-05 = day 35 of Colossus 1328, day 34 of Colossus 1328 is one day before the
  reference and is converted to 2016-11-06, not to 2016-11-04.
\<close>

theorem mauvelianToReal_before_reference:
  "init 1328 34 (Some COLOSSUS) = Inr \<lparr>priv_day = 484659\<rparr>
   \<and> lt \<lparr>priv_day = 484659\<rparr> test_mauvelian
   \<and> daysBetween \<lparr>priv_day = 484659\<rparr> test_mauvelian = 1
   \<and> mauvelianToReal test_converter \<lparr>priv_day = 484659\<rparr>
        = (Inr (fromordinal (ymd2ord 2016 11 6)), test_converter)"
  by (simp add: init_def range_len_def lt_def test_mauvelian_def daysBetween_def
      mauvelianToReal_def test_converter_def test_real_def timedelta_def date_plus_def
      MAXORDINAL_def date_simps)

text \<open>
  Claim C4: with a reference point stored, as in the module's test, the two conversions are
  inverse to each other for every input. This fails in three ways. The real dates 0689-11-22
  and 0689-11-23 are both converted to the Mauvelian date of offset 1, because \<open>addDays\<close>
  moves a result of offset 0 to offset 1, so no conversion back can return both, and offset 1
  is converted to 3343-10-19. Day 1 of the year 10001 lies beyond the last real date,
  9999-12-31, so its conversion raises \<^verbatim>\<open>OverflowError\<close>. And with the reference date day 1
  of the year \<open>2 ^ 45 + 1\<close>, whose year the float division gives as \<open>2 ^ 45\<close>, the reference
  real date itself is converted to a date 365 days before the reference date, which is
  converted back to a real date 365 days after the reference.
\<close>

theorem conversions_not_inverse:
  "realToMauvelian test_converter (fromordinal (ymd2ord 689 11 22))
     = (Inr \<lparr>priv_day = 1\<rparr>, test_converter)
   \<and> realToMauvelian test_converter (fromordinal (ymd2ord 689 11 23))
     = (Inr \<lparr>priv_day = 1\<rparr>, test_converter)
   \<and> fromordinal (ymd2ord 689 11 22) \<noteq> fromordinal (ymd2ord 689 11 23)
   \<and> mauvelianToReal test_converter \<lparr>priv_day = 1\<rparr>
     = (Inr (fromordinal (ymd2ord 3343 10 19)), test_converter)
   \<and> fromordinal (ymd2ord 3343 10 19) \<noteq> fromordinal (ymd2ord 689 11 22)
   \<and> init 10001 1 None = Inr \<lparr>priv_day = 3650001\<rparr>
   \<and> mauvelianToReal test_converter \<lparr>priv_day = 3650001\<rparr>
     = (Inl OverflowError, test_converter)
   \<and> init (2 ^ 45 + 1) 1 None = Inr \<lparr>priv_day = 12842295812423681\<rparr>
   \<and> realToMauvelian
        \<lparr>priv_reference = (Some test_real, Some \<lparr>priv_day = 12842295812423681\<rparr>)\<rparr> test_real
     = (Inr \<lparr>priv_day = 12842295812423316\<rparr>,
        \<lparr>priv_reference = (Some test_real, Some \<lparr>priv_day = 12842295812423681\<rparr>)\<rparr>)
   \<and> mauvelianToReal
        \<lparr>priv_reference = (Some test_real, Some \<lparr>priv_day = 12842295812423681\<rparr>)\<rparr>
        \<lparr>priv_day = 12842295812423316\<rparr>
     = (Inr (fromordinal (ymd2ord 2017 11 5)),
        \<lparr>priv_reference = (Some test_real, Some \<lparr>priv_day = 12842295812423681\<rparr>)\<rparr>)"
proof -
  have y: "year test_mauvelian = Inr 1328"
    by (simp add: year_exact test_mauvelian_def)
  have near: "realToMauvelian test_converter (fromordinal (ymd2ord 689 11 22))
       = (Inr \<lparr>priv_day = 1\<rparr>, test_converter)
     \<and> realToMauvelian test_converter (fromordinal (ymd2ord 689 11 23))
       = (Inr \<lparr>priv_day = 1\<rparr>, test_converter)"
    using y
    by (simp add: realToMauvelian_def test_converter_def test_real_def add_def init_def
        dayOfYear_mod addDays_def days_since_def date_simps)
      (simp add: test_mauvelian_def)
  have ret: "mauvelianToReal test_converter \<lparr>priv_day = 1\<rparr>
       = (Inr (fromordinal (ymd2ord 3343 10 19)), test_converter)
     \<and> mauvelianToReal test_converter \<lparr>priv_day = 3650001\<rparr>
       = (Inl OverflowError, test_converter)"
    by (simp add: mauvelianToReal_def test_converter_def test_real_def test_mauvelian_def
        daysBetween_def timedelta_def date_plus_def MAXORDINAL_def date_simps)
  have dates: "fromordinal (ymd2ord 689 11 22) \<noteq> fromordinal (ymd2ord 689 11 23)
     \<and> fromordinal (ymd2ord 3343 10 19) \<noteq> fromordinal (ymd2ord 689 11 22)"
    by (simp add: date_simps)
  have inits: "init 10001 1 None = Inr \<lparr>priv_day = 3650001\<rparr>
     \<and> init (2 ^ 45 + 1) 1 None = Inr \<lparr>priv_day = 12842295812423681\<rparr>"
    by (simp add: init_def)
  have far: "realToMauvelian
        \<lparr>priv_reference = (Some test_real, Some \<lparr>priv_day = 12842295812423681\<rparr>)\<rparr> test_real
     = (Inr \<lparr>priv_day = 12842295812423316\<rparr>,
        \<lparr>priv_reference = (Some test_real, Some \<lparr>priv_day = 12842295812423681\<rparr>)\<rparr>)"
    by (simp add: realToMauvelian_def add_def year_far init_def dayOfYear_mod addDays_def
        days_since_def)
  have far_back: "mauvelianToReal
        \<lparr>priv_reference = (Some test_real, Some \<lparr>priv_day = 12842295812423681\<rparr>)\<rparr>
        \<lparr>priv_day = 12842295812423316\<rparr>
     = (Inr (fromordinal (ymd2ord 2017 11 5)),
        \<lparr>priv_reference = (Some test_real, Some \<lparr>priv_day = 12842295812423681\<rparr>)\<rparr>)"
    by (simp add: mauvelianToReal_def test_real_def daysBetween_def timedelta_def
        date_plus_def MAXORDINAL_def date_simps)
  from near ret dates inits far far_back show ?thesis by simp
qed

text \<open>
  Claim C4, amended: with a reference point stored whose Mauvelian date has a positive offset
  below \<open>365 * 2 ^ 45\<close> (an AE date whose year the float division gives exactly, as in the
  module's test), the conversions are inverse to each other on the dates from the reference
  on. A Mauvelian date \<open>d\<close> on or after the reference date whose distance from it keeps the
  real date within 9999-12-31 is converted to a real date that is converted back to \<open>d\<close>; a
  real date \<open>r\<close> on or after the reference date is converted to a Mauvelian date that is
  converted back to \<open>r\<close>. No call changes the converter.
\<close>

theorem conversions_inverse_forward:
  assumes ref: "priv_reference c = (Some r0, Some m0)"
    and ok: "date_ok r0"
    and ae: "0 < priv_day m0"
    and small: "priv_day m0 < 365 * 2 ^ 45"
  shows "(priv_day m0 \<le> priv_day d \<and> toordinal r0 + (priv_day d - priv_day m0) \<le> MAXORDINAL
            \<longrightarrow> (\<exists>r. mauvelianToReal c d = (Inr r, c) \<and> realToMauvelian c r = (Inr d, c)))
       \<and> (date_ok r \<and> toordinal r0 \<le> toordinal r
            \<longrightarrow> (\<exists>m. realToMauvelian c r = (Inr m, c) \<and> mauvelianToReal c m = (Inr r, c)))"
proof (intro conjI impI)
  assume h: "priv_day m0 \<le> priv_day d \<and> toordinal r0 + (priv_day d - priv_day m0) \<le> MAXORDINAL"
  let ?n = "priv_day d - priv_day m0"
  let ?r = "fromordinal (toordinal r0 + ?n)"
  have fwd: "mauvelianToReal c d = (Inr ?r, c)"
    using h by (simp add: mauvelianToReal_forward [OF ref ok])
  have "add m0 (days_since ?r r0) = Inr (addDays m0 ?n)"
    by (simp add: add_AE [OF ae small] days_since_def)
  also have "addDays m0 ?n = d"
    using h by (cases d) (simp add: addDays_forward [OF ae])
  finally have bwd: "realToMauvelian c ?r = (Inr d, c)"
    by (simp add: realToMauvelian_set [OF ref])
  from fwd bwd
  show "\<exists>r. mauvelianToReal c d = (Inr r, c) \<and> realToMauvelian c r = (Inr d, c)"
    by blast
next
  assume h: "date_ok r \<and> toordinal r0 \<le> toordinal r"
  let ?n = "toordinal r - toordinal r0"
  let ?m = "\<lparr>priv_day = priv_day m0 + ?n\<rparr>"
  have "add m0 (days_since r r0) = Inr ?m"
    using h by (simp add: add_AE [OF ae small] days_since_def addDays_forward [OF ae])
  then have fwd: "realToMauvelian c r = (Inr ?m, c)"
    by (simp add: realToMauvelian_set [OF ref])
  have "mauvelianToReal c ?m = (Inr (fromordinal (toordinal r0 + (priv_day ?m - priv_day m0))), c)"
    using h by (intro mauvelianToReal_forward [OF ref ok]) (simp_all add: date_ok_def)
  then have bwd: "mauvelianToReal c ?m = (Inr r, c)"
    by simp
  from fwd bwd
  show "\<exists>m. realToMauvelian c r = (Inr m, c) \<and> mauvelianToReal c m = (Inr r, c)"
    by blast
qed

text \<open>
  The amended claim at the module's test: day 41 of Colossus 1328 (offset 484666) and
  2016-11-11 are converted into each other.
\<close>

theorem conversions_inverse_forward_witness:
  "mauvelianToReal test_converter \<lparr>priv_day = 484666\<rparr>
     = (Inr (fromordinal (ymd2ord 2016 11 11)), test_converter)
   \<and> realToMauvelian test_converter (fromordinal (ymd2ord 2016 11 11))
     = (Inr \<lparr>priv_day = 484666\<rparr>, test_converter)"
proof -
  let ?d = "\<lparr>priv_day = 484666\<rparr>"
  let ?r = "fromordinal (ymd2ord 2016 11 11)"
  have ref: "priv_reference test_converter = (Some test_real, Some test_mauvelian)"
    by (simp add: test_converter_def)
  have ok: "date_ok test_real"
    by (simp add: date_ok_def test_real_def MAXORDINAL_def date_simps)
  have ae: "0 < priv_day test_mauvelian"
    by (simp add: test_mauvelian_def)
  have small: "priv_day test_mauvelian < 365 * 2 ^ 45"
    by (simp add: test_mauvelian_def)
  have h1: "priv_day test_mauvelian \<le> priv_day ?d
        \<and> toordinal test_real + (priv_day ?d - priv_day test_mauvelian) \<le> MAXORDINAL"
    by (simp add: test_mauvelian_def test_real_def MAXORDINAL_def date_simps)
  have h2: "date_ok ?r \<and> toordinal test_real \<le> toordinal ?r"
    by (simp add: date_ok_def test_real_def MAXORDINAL_def date_simps)
  have there: "mauvelianToReal test_converter ?d = (Inr ?r, test_converter)"
    by (simp add: mauvelianToReal_def test_converter_def test_real_def
      test_mauvelian_def daysBetween_def timedelta_def date_plus_def MAXORDINAL_def date_simps)
  from conversions_inverse_forward [OF ref ok ae small, of ?d ?r] h1 h2
  obtain r' m' where
      "mauvelianToReal test_converter ?d = (Inr r', test_converter)"
      "realToMauvelian test_converter r' = (Inr ?d, test_converter)"
      "realToMauvelian test_converter ?r = (Inr m', test_converter)"
      "mauvelianToReal test_converter m' = (Inr ?r, test_converter)"
    by blast
  with there show ?thesis by simp
qed

text \<open>
  Claim C5: for a date \<open>d\<close> and an integer \<open>n\<close>, \<open>d - n\<close> returns a new date equal to
  \<open>addDays(-n)\<close> on a copy of \<open>d\<close>. In the code \<^verbatim>\<open>__sub__\<close> with an integer calls itself
  on the same arguments: however many nested calls are allowed, it returns no date and ends
  with \<^verbatim>\<open>RecursionError\<close>.
\<close>

theorem sub_days_recursion_error:
  "sub depth self (IntOperand n) = Inl RecursionError"
  by (induction depth) simp_all

text \<open>
  Claim C6: \<open>setReferencePoint\<close> fails with the type error when exactly one of the two dates
  is given, and stores the pair when both are given or both are cleared. The code stores the
  pair when both are given; in the three other cases it evaluates the unbound name
  \<^verbatim>\<open>NoneType\<close> and raises \<^verbatim>\<open>NameError\<close>, leaving the converter as it was.
\<close>

theorem setReferencePoint_outcomes:
  "setReferencePoint c None None = (Inl (NameError ''NoneType''), c)
   \<and> setReferencePoint c (Some r) None = (Inl (NameError ''NoneType''), c)
   \<and> setReferencePoint c None (Some m) = (Inl (NameError ''NoneType''), c)
   \<and> setReferencePoint c (Some r) (Some m) = (Inr (), c\<lparr>priv_reference := (Some r, Some m)\<rparr>)"
  by (simp add: setReferencePoint_def NoneType_def)

text \<open>
  Claim C7: on a converter that holds no complete reference pair, \<open>realToMauvelian\<close> and
  \<open>mauvelianToReal\<close> fail with the runtime error "Reference point not set", whatever their
  argument, and leave the converter unchanged.
\<close>

theorem conversion_needs_reference:
  assumes "fst (priv_reference c) = None \<or> snd (priv_reference c) = None"
  shows "realToMauvelian c r = (Inl (RuntimeError ''Reference point not set''), c)
       \<and> mauvelianToReal c m = (Inl (RuntimeError ''Reference point not set''), c)"
  using assms
  by (cases "priv_reference c")
    (auto simp: realToMauvelian_def mauvelianToReal_def split: option.splits)

text \<open>A converter as created holds no reference pair, and both conversions fail on it.\<close>

theorem conversion_needs_reference_witness:
  "(fst (priv_reference new_converter) = None \<or> snd (priv_reference new_converter) = None)
   \<and> realToMauvelian new_converter test_real
       = (Inl (RuntimeError ''Reference point not set''), new_converter)
   \<and> mauvelianToReal new_converter test_mauvelian
       = (Inl (RuntimeError ''Reference point not set''), new_converter)"
  using conversion_needs_reference [of new_converter test_real test_mauvelian]
  by (simp add: new_converter_def)

text \<open>
  Claim C8: \<open>addDays(n)\<close> moves the offset by exactly \<open>n\<close>, except that a result of exactly 0
  becomes 1, whatever the sign of \<open>n\<close>.
\<close>

theorem addDays_offset:
  "addDays self n
     = self\<lparr>priv_day := (if priv_day self + n = 0 then 1 else priv_day self + n)\<rparr>"
  by (simp add: addDays_def Let_def)

text \<open>Landing on 0 from below and from above gives offset 1; any other sum is kept.\<close>

theorem addDays_offset_witness:
  "addDays \<lparr>priv_day = - 5\<rparr> 5 = \<lparr>priv_day = 1\<rparr>
   \<and> addDays \<lparr>priv_day = 5\<rparr> (- 5) = \<lparr>priv_day = 1\<rparr>
   \<and> addDays \<lparr>priv_day = 5\<rparr> (- 7) = \<lparr>priv_day = - 2\<rparr>"
  using addDays_offset [of "\<lparr>priv_day = - 5\<rparr>" 5]
    addDays_offset [of "\<lparr>priv_day = 5\<rparr>" "- 5"]
    addDays_offset [of "\<lparr>priv_day = 5\<rparr>" "- 7"]
  by simp

text \<open>
  Claim C9: on a day of year from 1 to 365, \<open>seasonOf\<close> returns the season given by the
  inclusive upper bounds 90, 180 and 270 (Colossus above them); so for every date the day of
  year lies in the range of its season, and the day of season is the day of year minus the
  first day of the season plus 1, from 1 to 90, or to 95 in Colossus.
\<close>

theorem seasonOf_table:
  "(1 \<le> doy \<and> doy \<le> 365 \<longrightarrow> seasonOf doy = Inr (season_by_bounds doy))
   \<and> (\<exists>s. season self = Inr s
          \<and> s = season_by_bounds (dayOfYear self)
          \<and> in_range (dayOfYear self) (daysRange s)
          \<and> dayOfSeason self = Inr (dayOfYear self - start (daysRange s) + 1)
          \<and> 1 \<le> dayOfYear self - start (daysRange s) + 1
          \<and> dayOfYear self - start (daysRange s) + 1 \<le> (if s = COLOSSUS then 95 else 90))"
proof (intro conjI impI)
  assume "1 \<le> doy \<and> doy \<le> 365"
  then show "seasonOf doy = Inr (season_by_bounds doy)"
    by (simp add: seasonOf_def season_by_bounds_def)
next
  let ?d = "dayOfYear self"
  have b: "1 \<le> ?d \<and> ?d \<le> 365" by (rule dayOfYear_bounds)
  then have s: "seasonOf ?d = Inr (season_by_bounds ?d)"
    by (simp add: seasonOf_def season_by_bounds_def)
  have "in_range ?d (daysRange (season_by_bounds ?d))"
    using b by (simp add: season_by_bounds_def in_range_def)
  moreover have "1 \<le> ?d - start (daysRange (season_by_bounds ?d)) + 1"
    using b by (simp add: season_by_bounds_def)
  moreover have "?d - start (daysRange (season_by_bounds ?d)) + 1
      \<le> (if season_by_bounds ?d = COLOSSUS then 95 else 90)"
    using b by (simp add: season_by_bounds_def)
  ultimately show "\<exists>s. season self = Inr s
          \<and> s = season_by_bounds (dayOfYear self)
          \<and> in_range (dayOfYear self) (daysRange s)
          \<and> dayOfSeason self = Inr (dayOfYear self - start (daysRange s) + 1)
          \<and> 1 \<le> dayOfYear self - start (daysRange s) + 1
          \<and> dayOfYear self - start (daysRange s) + 1 \<le> (if s = COLOSSUS then 95 else 90)"
    using s by (simp add: season_def dayOfSeason_def)
qed

text \<open>The date of the module's test, day 76 of Scion 1306: day 256 of its year.\<close>

theorem seasonOf_table_witness:
  "seasonOf 256 = Inr SCION
   \<and> season \<lparr>priv_day = 476581\<rparr> = Inr SCION
   \<and> dayOfYear \<lparr>priv_day = 476581\<rparr> = 256
   \<and> dayOfSeason \<lparr>priv_day = 476581\<rparr> = Inr 76"
  using seasonOf_table [of 256 "\<lparr>priv_day = 476581\<rparr>"]
  by (simp add: season_by_bounds_def dayOfYear_mod)

text \<open>
  Claim C10: a date of positive offset is equal to the date constructed from its own year
  and day of year, and adding 0 days to it with \<open>+\<close> gives a date equal to it. This fails
  where the float division is too coarse: day 1 of the year \<open>2 ^ 45 + 1\<close> has the offset
  \<open>365 * 2 ^ 45 + 1\<close>, its year is computed as \<open>2 ^ 45\<close>, and the date constructed from its
  accessors, which is also what adding 0 days gives, lies 365 days before it.
\<close>

theorem reconstruct_far_differs:
  "init (2 ^ 45 + 1) 1 None = Inr \<lparr>priv_day = 12842295812423681\<rparr>
   \<and> year \<lparr>priv_day = 12842295812423681\<rparr> = Inr (2 ^ 45)
   \<and> dayOfYear \<lparr>priv_day = 12842295812423681\<rparr> = 1
   \<and> init (2 ^ 45) 1 None = Inr \<lparr>priv_day = 12842295812423316\<rparr>
   \<and> \<not> eq \<lparr>priv_day = 12842295812423316\<rparr> \<lparr>priv_day = 12842295812423681\<rparr>
   \<and> add \<lparr>priv_day = 12842295812423681\<rparr> 0 = Inr \<lparr>priv_day = 12842295812423316\<rparr>"
  by (simp add: init_def year_far dayOfYear_mod eq_def add_def addDays_def)

text \<open>
  Claim C10, amended: a date whose offset is positive and below \<open>365 * 2 ^ 45\<close> is equal to
  the date constructed from its own year and day of year, and adding 0 days to it with \<open>+\<close>
  gives a date equal to it.
\<close>

theorem reconstruct_from_accessors:
  assumes "0 < priv_day d" and "priv_day d < 365 * 2 ^ 45"
  shows "(case year d of
            Inl e \<Rightarrow> False
          | Inr y \<Rightarrow> (case init y (dayOfYear d) None of Inl e \<Rightarrow> False | Inr d' \<Rightarrow> eq d' d))
       \<and> (case add d 0 of Inl e \<Rightarrow> False | Inr d' \<Rightarrow> eq d' d)"
proof -
  from reconstruct_AE [OF assms]
  obtain y where "year d = Inr y" and "init y (dayOfYear d) None = Inr d"
    by blast
  then show ?thesis
    using assms by (simp add: add_AE addDays_forward eq_def)
qed

text \<open>The reference date of the module's test, offset 484660: year 1328, day 305.\<close>

theorem reconstruct_from_accessors_witness:
  "0 < priv_day test_mauvelian
   \<and> priv_day test_mauvelian < 365 * 2 ^ 45
   \<and> year test_mauvelian = Inr 1328
   \<and> dayOfYear test_mauvelian = 305
   \<and> init 1328 305 None = Inr test_mauvelian
   \<and> add test_mauvelian 0 = Inr test_mauvelian"
proof -
  have pos: "0 < priv_day test_mauvelian" and small: "priv_day test_mauvelian < 365 * 2 ^ 45"
    by (simp_all add: test_mauvelian_def)
  have y: "year test_mauvelian = Inr 1328" and doy: "dayOfYear test_mauvelian = 305"
    by (simp_all add: year_exact dayOfYear_mod test_mauvelian_def)
  from reconstruct_from_accessors [OF pos small] pos small y doy show ?thesis
    by (auto simp: eq_def split: sum.splits)
qed

end
